theory Spec2Isabelle
  imports Main "HOL-Library.AList"
begin

section \<open>Python values used by excel\_manager.py\<close>

text \<open>
  A Python \<open>str\<close> is a sequence of Unicode code points, so it is modelled as a list of
  natural numbers (the sheet names and headers of the module are Cyrillic and do not fit
  the 8-bit characters of HOL). \<open>lit\<close> reads an ASCII literal as such a string.
\<close>

type_synonym pystr = "nat list"

definition lit :: "string \<Rightarrow> pystr" where
  "lit s = map of_char s"

text \<open>
  \<open>str.strip()\<close> without an argument removes leading and trailing characters for which
  \<open>str.isspace\<close> holds: the ASCII white space and separators, and the Unicode spaces.
\<close>

definition isspace :: "nat \<Rightarrow> bool" where
  "isspace c \<longleftrightarrow>
     (9 \<le> c \<and> c \<le> 13) \<or> (28 \<le> c \<and> c \<le> 32) \<or> c = 0x85 \<or> c = 0xA0 \<or> c = 0x1680 \<or>
     (0x2000 \<le> c \<and> c \<le> 0x200A) \<or> c = 0x2028 \<or> c = 0x2029 \<or> c = 0x202F \<or>
     c = 0x205F \<or> c = 0x3000"

definition strip :: "pystr \<Rightarrow> pystr" where
  "strip s = rev (dropWhile isspace (rev (dropWhile isspace s)))"

text \<open>\<open>sep.join(xs)\<close>.\<close>

fun join :: "pystr \<Rightarrow> pystr list \<Rightarrow> pystr" where
  "join sep [] = []"
| "join sep [x] = x"
| "join sep (x # y # ys) = x @ sep @ join sep (y # ys)"

text \<open>
  \<open>datetime.date\<close>, \<open>datetime.datetime\<close> and \<open>datetime.timedelta\<close>. A timedelta is kept
  normalised by Python: \<open>0 \<le> seconds < 86400\<close>, \<open>0 \<le> microseconds < 1000000\<close>, and the
  sign lives in \<open>days\<close>.
\<close>

record date =
  year :: nat
  month :: nat
  day :: nat

record datetime =
  dt_date :: date
  hour :: nat
  minute :: nat
  second :: nat
  microsecond :: nat

record timedelta =
  days :: int
  seconds :: int
  microseconds :: int

text \<open>
  The values a cell can hold. Floating-point numbers are left out; \<open>elapsed_seconds\<close> is a
  whole number of seconds in this model.
\<close>

datatype cell_value =
    PyNone
  | PyStr pystr
  | PyInt int
  | PyBool bool
  | PyDate date
  | PyTimedelta timedelta

datatype error =
    FileNotFoundError string
  | InvalidFileException
  | ExcelStructureError pystr
  | OverflowError
  | ValueError
  | KeyError
  | FormatError

section \<open>Python's \<open>str()\<close> on cell values\<close>

fun digits :: "nat \<Rightarrow> pystr" where
  "digits n = (if n < 10 then [48 + n] else digits (n div 10) @ [48 + n mod 10])"

declare digits.simps [simp del]

definition str_int :: "int \<Rightarrow> pystr" where
  "str_int i = (if i < 0 then 45 # digits (nat (- i)) else digits (nat i))"

text \<open>\<open>"%0wd" % n\<close> for a natural number \<open>n\<close>.\<close>

definition zero_padded :: "nat \<Rightarrow> nat \<Rightarrow> pystr" where
  "zero_padded w n = replicate (w - length (digits n)) 48 @ digits n"

definition str_date :: "date \<Rightarrow> pystr" where
  "str_date d = zero_padded 4 (year d) @ lit ''-'' @ zero_padded 2 (month d) @ lit ''-''
     @ zero_padded 2 (day d)"

text \<open>
  \<open>timedelta.__str__\<close>: hours, minutes and seconds of the \<open>seconds\<close> field, the days in
  front when there are any, the microseconds behind when there are any.
\<close>

definition str_timedelta :: "timedelta \<Rightarrow> pystr" where
  "str_timedelta t =
     (let mm = seconds t div 60; ss = seconds t mod 60;
          hh = mm div 60; mm' = mm mod 60;
          s = str_int hh @ lit '':'' @ zero_padded 2 (nat mm') @ lit '':'' @ zero_padded 2 (nat ss);
          s1 = (if days t \<noteq> 0
                then str_int (days t) @ lit '' day'' @ (if \<bar>days t\<bar> \<noteq> 1 then lit ''s'' else [])
                       @ lit '', '' @ s
                else s)
      in if microseconds t \<noteq> 0 then s1 @ lit ''.'' @ zero_padded 6 (nat (microseconds t)) else s1)"

fun py_str :: "cell_value \<Rightarrow> pystr" where
  "py_str PyNone = lit ''None''"
| "py_str (PyStr s) = s"
| "py_str (PyInt i) = str_int i"
| "py_str (PyBool b) = (if b then lit ''True'' else lit ''False'')"
| "py_str (PyDate d) = str_date d"
| "py_str (PyTimedelta t) = str_timedelta t"

section \<open>\<open>_normalise\<close>\<close>

text \<open>
  The loop of \<open>_normalise\<close> with its accumulator \<open>items\<close>: a \<open>None\<close> is skipped, any other
  value is converted with \<open>str\<close> and stripped, and is appended when it is non-empty
  and not yet in \<open>items\<close>.
\<close>

fun normalise_loop :: "cell_value list \<Rightarrow> pystr list \<Rightarrow> pystr list" where
  "normalise_loop [] items = items"
| "normalise_loop (v # vs) items =
     (if v = PyNone then normalise_loop vs items
      else let text = strip (py_str v)
           in if text \<noteq> [] \<and> text \<notin> set items
              then normalise_loop vs (items @ [text])
              else normalise_loop vs items)"

definition normalise :: "cell_value list \<Rightarrow> pystr list" where
  "normalise vs = normalise_loop vs []"

text \<open>
  The loop of \<open>load_reference_data\<close> over the rows of the sheet, numbered from \<open>idx = 1\<close>:
  the first row is skipped, every other row is padded with \<open>(None, None)\<close> and its first
  two entries are appended to \<open>projects\<close> and \<open>work_types\<close>. The padded tuple has at least
  two entries, so both reads are in range.
\<close>

fun read_rows ::
  "nat \<Rightarrow> cell_value list list \<Rightarrow> cell_value list \<times> cell_value list
     \<Rightarrow> cell_value list \<times> cell_value list" where
  "read_rows idx [] acc = acc"
| "read_rows idx (row # rest) (projects, work_types) =
     (if idx = 1 then read_rows (idx + 1) rest (projects, work_types)
      else let padded = row @ [PyNone, PyNone];
               project = padded ! 0;
               work_type = padded ! 1
           in read_rows (idx + 1) rest (projects @ [project], work_types @ [work_type]))"

definition read_reference :: "cell_value list list \<Rightarrow> pystr list \<times> pystr list" where
  "read_reference rows =
     (let (projects, work_types) = read_rows 1 rows ([], [])
      in (normalise projects, normalise work_types))"

section \<open>The workbook of the storage library\<close>

text \<open>
  The part of openpyxl that the module calls. A worksheet owns a dictionary \<open>_cells\<close> from
  (row, column) to cell, kept here as an association list, and the counter \<open>_current_row\<close>
  used by \<open>append\<close>. A cell carries its value, its number format and the rest of its
  styling (fonts, fills, borders), which the module never looks at and which is kept as
  an opaque style number.
\<close>

type_synonym coord = "nat \<times> nat"

record cell =
  val :: cell_value
  number_format :: pystr
  style :: nat

record worksheet =
  title :: pystr
  cells :: "(coord \<times> cell) list"
  current_row :: nat

type_synonym workbook = "worksheet list"

definition new_cell :: cell where
  "new_cell = \<lparr>val = PyNone, number_format = lit ''General'', style = 0\<rparr>"

text \<open>
  What a reader of the sheet sees at a coordinate: the stored cell, or a fresh empty cell
  where the dictionary has none.
\<close>

definition cell_view :: "(coord \<times> cell) list \<Rightarrow> coord \<Rightarrow> cell" where
  "cell_view cs k = (case map_of cs k of None \<Rightarrow> new_cell | Some x \<Rightarrow> x)"

text \<open>
  \<open>sheet.cell(row=r, column=c)\<close> returns the cell at the coordinate and creates an empty
  one in \<open>_cells\<close> when there is none: the call changes the sheet.
\<close>

definition ws_cell :: "worksheet \<Rightarrow> nat \<Rightarrow> nat \<Rightarrow> cell \<times> worksheet" where
  "ws_cell ws r c =
     (case map_of (cells ws) (r, c) of
        Some x \<Rightarrow> (x, ws)
      | None \<Rightarrow> (new_cell, ws\<lparr>cells := cells ws @ [((r, c), new_cell)]\<rparr>))"

text \<open>
  \<open>sheet.cell(row=r, column=c).value = v\<close>: the cell object is shared with the sheet, so
  the assignment is an update of the sheet's dictionary. The library's own validation of
  cell text and its choice of a display format for date values are not modelled.
\<close>

definition set_value :: "worksheet \<Rightarrow> nat \<Rightarrow> nat \<Rightarrow> cell_value \<Rightarrow> worksheet" where
  "set_value ws r c v =
     (let (x, ws') = ws_cell ws r c
      in ws'\<lparr>cells := AList.update (r, c) (x\<lparr>val := v\<rparr>) (cells ws')\<rparr>)"

text \<open>
  \<open>cell.number_format = f\<close> on the cell at a coordinate. Whether the storage accepts a
  format annotation is a parameter: when it does not, the assignment raises.
\<close>

definition set_number_format ::
  "bool \<Rightarrow> worksheet \<Rightarrow> nat \<Rightarrow> nat \<Rightarrow> pystr \<Rightarrow> error + worksheet" where
  "set_number_format accepts ws r c f =
     (if accepts
      then Inr (ws\<lparr>cells := AList.update (r, c) ((cell_view (cells ws) (r, c))\<lparr>number_format := f\<rparr>)
                                (cells ws)\<rparr>)
      else Inl FormatError)"

text \<open>
  \<open>max_row\<close> and \<open>max_column\<close>: the largest row and column number of the dictionary, 1
  for a sheet without cells. Rows and columns are numbered from 1.
\<close>

definition max_row :: "worksheet \<Rightarrow> nat" where
  "max_row ws = fold max (map (fst \<circ> fst) (cells ws)) 1"

definition max_column :: "worksheet \<Rightarrow> nat" where
  "max_column ws = fold max (map (snd \<circ> fst) (cells ws)) 1"

text \<open>
  \<open>iter_rows(values_only=True)\<close>: nothing for a sheet whose \<open>_current_row\<close> is 0, else the
  rows 1 to \<open>max_row\<close>, each a tuple of the values of columns 1 to \<open>max_column\<close>.
\<close>

definition iter_rows :: "worksheet \<Rightarrow> cell_value list list" where
  "iter_rows ws =
     (if current_row ws = 0 then []
      else map (\<lambda>r. map (\<lambda>c. val (cell_view (cells ws) (r, c))) [1 ..< max_column ws + 1])
               [1 ..< max_row ws + 1])"

text \<open>
  \<open>ws.append(values)\<close>: writes the values into the columns 1, 2, ... of the row after
  \<open>_current_row\<close> and advances the counter.
\<close>

fun append_cells :: "worksheet \<Rightarrow> nat \<Rightarrow> nat \<Rightarrow> cell_value list \<Rightarrow> worksheet" where
  "append_cells ws r c [] = ws"
| "append_cells ws r c (v # vs) = append_cells (set_value ws r c v) r (c + 1) vs"

definition ws_append :: "worksheet \<Rightarrow> cell_value list \<Rightarrow> worksheet" where
  "ws_append ws vs =
     (let row_idx = current_row ws + 1
      in (append_cells ws row_idx 1 vs)\<lparr>current_row := row_idx\<rparr>)"

text \<open>
  \<open>Workbook()\<close> starts with one sheet named "Sheet"; \<open>wb.active\<close> is the sheet at the
  active index 0, or \<open>None\<close>; \<open>wb.remove(ws)\<close> removes that sheet and raises
  \<open>ValueError\<close> when it is not in the workbook; \<open>wb.create_sheet(t)\<close> appends an empty
  sheet (the titles created by the module never collide, so the library's renaming of
  duplicates is not modelled).
\<close>

definition new_sheet :: "pystr \<Rightarrow> worksheet" where
  "new_sheet t = \<lparr>title = t, cells = [], current_row = 0\<rparr>"

definition Workbook :: workbook where
  "Workbook = [new_sheet (lit ''Sheet'')]"

definition active :: "workbook \<Rightarrow> worksheet option" where
  "active wb = (case wb of [] \<Rightarrow> None | ws # _ \<Rightarrow> Some ws)"

definition remove :: "workbook \<Rightarrow> worksheet option \<Rightarrow> error + workbook" where
  "remove wb w =
     (case w of
        None \<Rightarrow> Inl ValueError
      | Some ws \<Rightarrow> if ws \<in> set wb then Inr (remove1 ws wb) else Inl ValueError)"

definition create_sheet :: "workbook \<Rightarrow> pystr \<Rightarrow> workbook" where
  "create_sheet wb t = wb @ [new_sheet t]"

definition sheetnames :: "workbook \<Rightarrow> pystr list" where
  "sheetnames wb = map title wb"

text \<open>\<open>name in workbook\<close> and \<open>workbook[name]\<close> (the first sheet of that title).\<close>

definition contains :: "workbook \<Rightarrow> pystr \<Rightarrow> bool" where
  "contains wb name \<longleftrightarrow> name \<in> set (sheetnames wb)"

definition getitem :: "workbook \<Rightarrow> pystr \<Rightarrow> worksheet option" where
  "getitem wb name = find (\<lambda>ws. title ws = name) wb"

text \<open>
  The sheet object obtained by \<open>workbook[name]\<close> is shared with the workbook: changing it
  changes the workbook at the place of the first sheet of that title.
\<close>

fun put_sheet :: "workbook \<Rightarrow> pystr \<Rightarrow> worksheet \<Rightarrow> workbook" where
  "put_sheet [] name ws' = []"
| "put_sheet (ws # rest) name ws' =
     (if title ws = name then ws' # rest else ws # put_sheet rest name ws')"

section \<open>Files\<close>

text \<open>
  A file system maps a path to the file stored there. A stored workbook is the list of
  its sheets, each a title with its cells. \<open>load_workbook\<close> fails on a file that is not a
  workbook, and sets \<open>_current_row\<close> of each sheet it reads to \<open>max_row\<close> when the sheet
  has cells. \<open>save\<close> replaces the file at the path.
\<close>

type_synonym stored_sheet = "pystr \<times> (coord \<times> cell) list"

datatype document = Xlsx "stored_sheet list" | NotXlsx

type_synonym filesystem = "string \<Rightarrow> document option"

definition load_sheet :: "stored_sheet \<Rightarrow> worksheet" where
  "load_sheet s =
     (let ws = \<lparr>title = fst s, cells = snd s, current_row = 0\<rparr>
      in if cells ws \<noteq> [] then ws\<lparr>current_row := max_row ws\<rparr> else ws)"

definition load_workbook :: "document \<Rightarrow> error + workbook" where
  "load_workbook f = (case f of NotXlsx \<Rightarrow> Inl InvalidFileException | Xlsx ss \<Rightarrow> Inr (map load_sheet ss))"

definition store_sheet :: "worksheet \<Rightarrow> stored_sheet" where
  "store_sheet ws = (title ws, cells ws)"

definition save :: "filesystem \<Rightarrow> string \<Rightarrow> workbook \<Rightarrow> filesystem" where
  "save fs path wb = fs(path \<mapsto> Xlsx (map store_sheet wb))"

section \<open>excel\_manager.py\<close>

text \<open>The sheet names: "Spravochnik" and "Uchet vremeni" in Cyrillic letters.\<close>

definition REFERENCE_SHEET :: pystr where
  "REFERENCE_SHEET = [0x421, 0x43F, 0x440, 0x430, 0x432, 0x43E, 0x447, 0x43D, 0x438, 0x43A]"

definition TIMESHEET_SHEET :: pystr where
  "TIMESHEET_SHEET =
     [0x423, 0x447, 0x435, 0x442, 0x20, 0x432, 0x440, 0x435, 0x43C, 0x435, 0x43D, 0x438]"

text \<open>
  The message of \<open>ExcelStructureError\<close>:
  \<open>f"Workbook must contain sheet '{NAME}'. Found: {', '.join(workbook.sheetnames)}"\<close>.
\<close>

definition structure_message :: "pystr \<Rightarrow> workbook \<Rightarrow> pystr" where
  "structure_message name wb =
     lit ''Workbook must contain sheet '' @ [39] @ name @ [39] @ lit ''. Found: ''
       @ join (lit '', '') (sheetnames wb)"

subsection \<open>\<open>load_reference_data\<close>\<close>

definition load_reference_data :: "filesystem \<Rightarrow> string \<Rightarrow> error + (pystr list \<times> pystr list)" where
  "load_reference_data fs path =
     (case fs path of
        None \<Rightarrow> Inl (FileNotFoundError path)
      | Some f \<Rightarrow>
          (case load_workbook f of
             Inl e \<Rightarrow> Inl e
           | Inr workbook \<Rightarrow>
               if \<not> contains workbook REFERENCE_SHEET
               then Inl (ExcelStructureError (structure_message REFERENCE_SHEET workbook))
               else (case getitem workbook REFERENCE_SHEET of
                       None \<Rightarrow> Inl KeyError
                     | Some sheet \<Rightarrow> Inr (read_reference (iter_rows sheet)))))"

subsection \<open>\<open>append_time_entry\<close>\<close>

text \<open>
  \<open>timedelta(seconds=n)\<close> for a whole number \<open>n\<close>: \<open>divmod(n, 24*3600)\<close> gives the days and
  the seconds, and a magnitude of more than 999999999 days raises \<open>OverflowError\<close>.
\<close>

definition timedelta_of_seconds :: "int \<Rightarrow> error + timedelta" where
  "timedelta_of_seconds n =
     (let d = n div (24 * 3600); s = n mod (24 * 3600)
      in if \<bar>d\<bar> > 999999999 then Inl OverflowError
         else Inr \<lparr>days = d, seconds = s, microseconds = 0\<rparr>)"

text \<open>
  \<open>is_empty_row\<close>: the four reads are joined by \<open>and\<close>, so the cells of a row are fetched
  (and created when missing) only up to the first one that holds a value.
\<close>

definition is_empty_row :: "worksheet \<Rightarrow> nat \<Rightarrow> bool \<times> worksheet" where
  "is_empty_row sheet r =
     (let (c1, s1) = ws_cell sheet r 1 in
      if val c1 \<noteq> PyNone then (False, s1) else
      let (c2, s2) = ws_cell s1 r 2 in
      if val c2 \<noteq> PyNone then (False, s2) else
      let (c3, s3) = ws_cell s2 r 3 in
      if val c3 \<noteq> PyNone then (False, s3) else
      let (c4, s4) = ws_cell s3 r 4 in
      (val c4 = PyNone, s4))"

text \<open>
  The loop \<open>for r in range(first, last + 1)\<close> over the list of its row numbers: it stops
  at the first empty row, and \<open>target_row\<close> stays \<open>None\<close> when there is none.
\<close>

fun scan_rows :: "worksheet \<Rightarrow> nat list \<Rightarrow> nat option \<times> worksheet" where
  "scan_rows sheet [] = (None, sheet)"
| "scan_rows sheet (r # rs) =
     (let (empty, sheet') = is_empty_row sheet r
      in if empty then (Some r, sheet') else scan_rows sheet' rs)"

definition find_target_row :: "worksheet \<Rightarrow> nat \<times> worksheet" where
  "find_target_row sheet =
     (let first = 2;
          last = max_row sheet;
          (target_row, sheet') = scan_rows sheet [first ..< last + 1]
      in (case target_row of None \<Rightarrow> last + 1 | Some r \<Rightarrow> r, sheet'))"

text \<open>
  The four writes at the target row, and the display format of the duration cell inside
  \<open>try ... except Exception: pass\<close>.
\<close>

definition write_entry ::
  "bool \<Rightarrow> worksheet \<Rightarrow> nat \<Rightarrow> date \<Rightarrow> pystr \<Rightarrow> pystr \<Rightarrow> timedelta \<Rightarrow> worksheet" where
  "write_entry accepts sheet target_row d project work_type duration =
     (let s1 = set_value sheet target_row 1 (PyDate d);
          s2 = set_value s1 target_row 2 (PyStr project);
          s3 = set_value s2 target_row 3 (PyStr work_type);
          s4 = set_value s3 target_row 4 (PyTimedelta duration)
      in case set_number_format accepts s4 target_row 4 (lit ''[h]:mm:ss'') of
           Inl e \<Rightarrow> s4
         | Inr s5 \<Rightarrow> s5)"

text \<open>
  \<open>accepts\<close> says whether the storage takes a format annotation, \<open>now\<close> is the value of
  \<open>datetime.now()\<close>. The result is the outcome of the call and the file system after it.
\<close>

definition append_time_entry ::
  "bool \<Rightarrow> datetime \<Rightarrow> filesystem \<Rightarrow> string \<Rightarrow> pystr \<Rightarrow> pystr \<Rightarrow> int \<Rightarrow> datetime option
     \<Rightarrow> (error + unit) \<times> filesystem" where
  "append_time_entry accepts now fs path project work_type elapsed_seconds finished_at =
     (case fs path of
        None \<Rightarrow> (Inl (FileNotFoundError path), fs)
      | Some f \<Rightarrow>
          (case load_workbook f of
             Inl e \<Rightarrow> (Inl e, fs)
           | Inr workbook \<Rightarrow>
               if \<not> contains workbook TIMESHEET_SHEET
               then (Inl (ExcelStructureError (structure_message TIMESHEET_SHEET workbook)), fs)
               else (case getitem workbook TIMESHEET_SHEET of
                       None \<Rightarrow> (Inl KeyError, fs)
                     | Some sheet \<Rightarrow>
                         let timestamp = (case finished_at of None \<Rightarrow> now | Some t \<Rightarrow> t)
                         in (case timedelta_of_seconds elapsed_seconds of
                               Inl e \<Rightarrow> (Inl e, fs)
                             | Inr duration \<Rightarrow>
                                 let (target_row, sheet1) = find_target_row sheet;
                                     sheet2 = write_entry accepts sheet1 target_row
                                                (dt_date timestamp) project work_type duration
                                 in (Inr (), save fs path
                                               (put_sheet workbook TIMESHEET_SHEET sheet2))))))"

subsection \<open>\<open>create_template\<close>\<close>

text \<open>The headers: "Proekt", "Vid rabot", "Data" and "Dlitelnost" in Cyrillic letters.\<close>

definition reference_header :: "cell_value list" where
  "reference_header =
     [PyStr [0x41F, 0x440, 0x43E, 0x435, 0x43A, 0x442],
      PyStr [0x412, 0x438, 0x434, 0x20, 0x440, 0x430, 0x431, 0x43E, 0x442]]"

definition timesheet_header :: "cell_value list" where
  "timesheet_header =
     [PyStr [0x414, 0x430, 0x442, 0x430],
      PyStr [0x41F, 0x440, 0x43E, 0x435, 0x43A, 0x442],
      PyStr [0x412, 0x438, 0x434, 0x20, 0x440, 0x430, 0x431, 0x43E, 0x442],
      PyStr [0x414, 0x43B, 0x438, 0x442, 0x435, 0x43B, 0x44C, 0x43D, 0x43E, 0x441, 0x442, 0x44C]]"

text \<open>
  The sheet returned by \<open>create_sheet\<close> is the last sheet of the workbook, and appending
  the header to it changes the workbook there.
\<close>

definition create_template :: "filesystem \<Rightarrow> string \<Rightarrow> (error + unit) \<times> filesystem" where
  "create_template fs path =
     (let wb = Workbook;
          default = active wb
      in case remove wb default of
           Inl e \<Rightarrow> (Inl e, fs)
         | Inr wb1 \<Rightarrow>
             let wb2 = create_sheet wb1 REFERENCE_SHEET;
                 ws_ref = last wb2;
                 wb3 = butlast wb2 @ [ws_append ws_ref reference_header];
                 wb4 = create_sheet wb3 TIMESHEET_SHEET;
                 ws_ts = last wb4;
                 wb5 = butlast wb4 @ [ws_append ws_ts timesheet_header]
             in (Inr (), save fs path wb5))"

section \<open>Notions of the specification\<close>

text \<open>
  A row is free iff all four of its first four columns hold no value.
\<close>

definition row_is_free :: "(coord \<times> cell) list \<Rightarrow> nat \<Rightarrow> bool" where
  "row_is_free cs r \<longleftrightarrow>
     val (cell_view cs (r, 1)) = PyNone \<and> val (cell_view cs (r, 2)) = PyNone \<and>
     val (cell_view cs (r, 3)) = PyNone \<and> val (cell_view cs (r, 4)) = PyNone"


text \<open>
  The normalisation in the words of the specification: the values of a column are those
  of its rows after the first, a missing entry counting as \<open>None\<close>; the candidates are the
  stripped texts of the values that are not \<open>None\<close>, without the empty ones; of equal
  candidates only the first occurrence is kept.
\<close>

definition first_occurrences :: "'a list \<Rightarrow> 'a list" where
  "first_occurrences xs = rev (remdups (rev xs))"

definition column :: "nat \<Rightarrow> cell_value list list \<Rightarrow> cell_value list" where
  "column i rows = map (\<lambda>row. if i < length row then row ! i else PyNone) (drop 1 rows)"

definition candidates :: "cell_value list \<Rightarrow> pystr list" where
  "candidates vs =
     filter (\<lambda>t. t \<noteq> []) (map (\<lambda>v. strip (py_str v)) (filter (\<lambda>v. v \<noteq> PyNone) vs))"

section \<open>Example workbooks\<close>

text \<open>
  A reference sheet with the rows of the specification's example under a header row, and
  a timesheet whose rows 2 and 4 are occupied while row 3 holds only a formatted, empty
  cell.
\<close>

definition text_cell :: "string \<Rightarrow> cell" where
  "text_cell s = new_cell\<lparr>val := PyStr (lit s)\<rparr>"

definition example_reference :: "(coord \<times> cell) list" where
  "example_reference =
     [((1, 1), text_cell ''Project''), ((1, 2), text_cell ''Work type''),
      ((2, 1), text_cell ''A''), ((2, 2), text_cell ''X''),
      ((3, 1), text_cell ''B''),
      ((4, 1), text_cell ''A''), ((4, 2), text_cell ''Y''),
      ((5, 1), text_cell '' A ''), ((5, 2), text_cell ''X'')]"

definition example_timesheet :: "(coord \<times> cell) list" where
  "example_timesheet =
     [((1, 1), text_cell ''Date''), ((1, 2), text_cell ''Project''),
      ((1, 3), text_cell ''Work type''), ((1, 4), text_cell ''Duration''),
      ((2, 1), new_cell\<lparr>val := PyDate \<lparr>year = 2024, month = 5, day = 17\<rparr>\<rparr>),
      ((2, 2), text_cell ''P0''), ((2, 3), text_cell ''W0''),
      ((2, 4), new_cell\<lparr>val := PyTimedelta \<lparr>days = 0, seconds = 60, microseconds = 0\<rparr>\<rparr>),
      ((3, 1), new_cell\<lparr>style := 7\<rparr>),
      ((4, 2), text_cell ''P2'')]"

definition example_now :: datetime where
  "example_now = \<lparr>dt_date = \<lparr>year = 2024, month = 6, day = 1\<rparr>, hour = 9, minute = 30,
     second = 0, microsecond = 0\<rparr>"

definition example_book :: filesystem where
  "example_book =
     [''book.xlsx'' \<mapsto> Xlsx [(lit ''Sheet'', []), (REFERENCE_SHEET, example_reference),
                               (TIMESHEET_SHEET, example_timesheet)]]"

text \<open>A timesheet whose row 3 holds an empty string in its project column.\<close>

definition example_blank :: "(coord \<times> cell) list" where
  "example_blank =
     [((1, 1), text_cell ''Date''),
      ((2, 2), text_cell ''P0''),
      ((3, 2), text_cell ''''),
      ((4, 3), text_cell ''W2'')]"

text \<open>A workbook that has neither of the two sheets.\<close>

definition example_foreign :: filesystem where
  "example_foreign = [''other.xlsx'' \<mapsto> Xlsx [(lit ''Sheet'', []), (lit ''Data'', [])]]"

text \<open>The cells of a sheet that holds one row of values and nothing else.\<close>

definition header_cells :: "cell_value list \<Rightarrow> (coord \<times> cell) list" where
  "header_cells vs = map (\<lambda>(c, v). ((1, c), new_cell\<lparr>val := v\<rparr>)) (zip [1 ..< length vs + 1] vs)"

section \<open>Cells and sheets\<close>

lemma ws_cell_fst: "fst (ws_cell ws r c) = cell_view (cells ws) (r, c)"
  by (simp add: ws_cell_def cell_view_def split: option.splits)

lemma ws_cell_view: "cell_view (cells (snd (ws_cell ws r c))) k = cell_view (cells ws) k"
  by (auto simp: ws_cell_def cell_view_def map_of_append map_add_def split: option.splits)


lemma ws_cell_current_row: "current_row (snd (ws_cell ws r c)) = current_row ws"
  by (simp add: ws_cell_def split: option.splits)



lemma set_number_format_view:
  "set_number_format accepts ws r c f = Inr ws' \<Longrightarrow>
   cell_view (cells ws') k =
     (if k = (r, c) then (cell_view (cells ws) k)\<lparr>number_format := f\<rparr> else cell_view (cells ws) k)"
  by (auto simp: set_number_format_def cell_view_def update_conv' split: if_splits)

lemma is_empty_row_fst: "fst (is_empty_row ws r) = row_is_free (cells ws) r"
  by (simp add: is_empty_row_def row_is_free_def Let_def case_prod_beta ws_cell_fst ws_cell_view)

lemma is_empty_row_view: "cell_view (cells (snd (is_empty_row ws r))) k = cell_view (cells ws) k"
  by (simp add: is_empty_row_def Let_def case_prod_beta ws_cell_view)


lemma row_is_free_cong:
  "(\<And>k. cell_view cs' k = cell_view cs k) \<Longrightarrow> row_is_free cs' r = row_is_free cs r"
  by (simp add: row_is_free_def)

lemma scan_rows_fst: "fst (scan_rows ws rs) = find (row_is_free (cells ws)) rs"
proof (induction rs arbitrary: ws)
  case Nil
  show ?case by simp
next
  case (Cons r rs)
  have "row_is_free (cells (snd (is_empty_row ws r))) = row_is_free (cells ws)"
    by (rule ext, rule row_is_free_cong) (simp add: is_empty_row_view)
  then show ?case
    using Cons.IH [of "snd (is_empty_row ws r)"]
    by (simp add: case_prod_beta is_empty_row_fst)
qed



lemma find_target_row_fst:
  "fst (find_target_row ws) =
     (case find (row_is_free (cells ws)) [2 ..< max_row ws + 1] of
        None \<Rightarrow> max_row ws + 1 | Some r \<Rightarrow> r)"
  by (simp add: find_target_row_def Let_def case_prod_beta scan_rows_fst)



lemma find_upt_None: "find P [a ..< b] = None \<longleftrightarrow> (\<forall>r. a \<le> r \<and> r < b \<longrightarrow> \<not> P r)"
  by (auto simp: find_None_iff)

lemma find_upt_Some:
  "find P [a ..< b] = Some t \<longleftrightarrow> a \<le> t \<and> t < b \<and> P t \<and> (\<forall>r. a \<le> r \<and> r < t \<longrightarrow> \<not> P r)"
proof
  assume "find P [a ..< b] = Some t"
  then obtain i where i: "i < length [a ..< b]" "P ([a ..< b] ! i)" "t = [a ..< b] ! i"
    "\<forall>j<i. \<not> P ([a ..< b] ! j)"
    by (auto simp: find_Some_iff)
  have t: "t = a + i" "a + i < b" using i by auto
  have "\<not> P r" if "a \<le> r" "r < t" for r
  proof -
    have "r - a < i" using that t by arith
    then have "\<not> P ([a ..< b] ! (r - a))" using i(4) by blast
    moreover have "[a ..< b] ! (r - a) = r" using that t by simp
    ultimately show ?thesis by simp
  qed
  then show "a \<le> t \<and> t < b \<and> P t \<and> (\<forall>r. a \<le> r \<and> r < t \<longrightarrow> \<not> P r)"
    using i t by auto
next
  assume h: "a \<le> t \<and> t < b \<and> P t \<and> (\<forall>r. a \<le> r \<and> r < t \<longrightarrow> \<not> P r)"
  have "t - a < length [a ..< b] \<and> P ([a ..< b] ! (t - a)) \<and> t = [a ..< b] ! (t - a) \<and>
        (\<forall>j<t - a. \<not> P ([a ..< b] ! j))"
    using h by auto
  then show "find P [a ..< b] = Some t"
    unfolding find_Some_iff by blast
qed

lemma fold_max_ge: "(a::nat) \<le> fold max xs a"
proof (induction xs arbitrary: a)
  case Nil
  show ?case by simp
next
  case (Cons x xs)
  have "a \<le> max x a" by simp
  also have "\<dots> \<le> fold max xs (max x a)" by (rule Cons.IH)
  finally show ?case by simp
qed

lemma max_row_ge_1: "1 \<le> max_row ws"
  unfolding max_row_def by (rule fold_max_ge)

lemma find_target_row_spec:
  fixes ws :: worksheet
  defines "t \<equiv> fst (find_target_row ws)"
  shows "2 \<le> t \<and> t \<le> max_row ws + 1 \<and>
         (\<forall>r. 2 \<le> r \<and> r < t \<longrightarrow> \<not> row_is_free (cells ws) r) \<and>
         (t \<le> max_row ws \<longrightarrow> row_is_free (cells ws) t)"
proof (cases "find (row_is_free (cells ws)) [2 ..< max_row ws + 1]")
  case None
  have t: "t = max_row ws + 1" unfolding t_def find_target_row_fst None by simp
  have occ: "\<forall>r. 2 \<le> r \<and> r < max_row ws + 1 \<longrightarrow> \<not> row_is_free (cells ws) r"
    using None unfolding find_upt_None .
  have "1 \<le> max_row ws" by (rule max_row_ge_1)
  then show ?thesis using t occ by auto
next
  case (Some r)
  have t: "t = r" unfolding t_def find_target_row_fst Some by simp
  have "2 \<le> r \<and> r < max_row ws + 1 \<and> row_is_free (cells ws) r \<and>
        (\<forall>r'. 2 \<le> r' \<and> r' < r \<longrightarrow> \<not> row_is_free (cells ws) r')"
    using Some unfolding find_upt_Some .
  then show ?thesis using t by auto
qed

section \<open>Writing an entry\<close>




lemma load_sheet_title: "title (load_sheet s) = fst s"
  by (simp add: load_sheet_def Let_def)

lemma load_sheet_cells: "cells (load_sheet s) = snd s"
  by (simp add: load_sheet_def Let_def)


lemma sheetnames_load: "sheetnames (map load_sheet ss) = map fst ss"
  by (simp add: sheetnames_def load_sheet_title)

lemma contains_load: "contains (map load_sheet ss) name \<longleftrightarrow> name \<in> fst ` set ss"
  by (simp add: contains_def sheetnames_load)

lemma getitem_load:
  "getitem (map load_sheet ss) name = map_option load_sheet (find (\<lambda>s. fst s = name) ss)"
  unfolding getitem_def by (induction ss) (simp_all add: load_sheet_title)

lemma find_split:
  "find P xs = Some x \<Longrightarrow> \<exists>pre post. xs = pre @ x # post \<and> P x \<and> (\<forall>y\<in>set pre. \<not> P y)"
proof (induction xs)
  case Nil
  then show ?case by simp
next
  case (Cons a xs)
  show ?case
  proof (cases "P a")
    case True
    then have "a = x" using Cons.prems by simp
    then have "a # xs = [] @ x # xs \<and> P x \<and> (\<forall>y\<in>set []. \<not> P y)" using True by simp
    then show ?thesis by blast
  next
    case False
    then have "find P xs = Some x" using Cons.prems by simp
    then obtain pre post where "xs = pre @ x # post" "P x" "\<forall>y\<in>set pre. \<not> P y"
      using Cons.IH by blast
    then have "a # xs = (a # pre) @ x # post \<and> P x \<and> (\<forall>y\<in>set (a # pre). \<not> P y)"
      using False by simp
    then show ?thesis by blast
  qed
qed




section \<open>Normalisation\<close>

lemma remdups_snoc: "remdups (xs @ [t]) = remdups (filter (\<lambda>y. y \<noteq> t) xs) @ [t]"
  by (induction xs) auto

lemma first_occurrences_Cons:
  "first_occurrences (t # ys) = t # first_occurrences (filter (\<lambda>y. y \<noteq> t) ys)"
  by (simp add: first_occurrences_def remdups_snoc rev_filter)

lemma first_occurrences_Nil: "first_occurrences [] = []"
  by (simp add: first_occurrences_def)

lemma normalise_loop_spec:
  "normalise_loop vs items =
     items @ first_occurrences (filter (\<lambda>t. t \<notin> set items) (candidates vs))"
proof (induction vs arbitrary: items)
  case Nil
  show ?case by (simp add: candidates_def first_occurrences_Nil)
next
  case (Cons v vs)
  show ?case
  proof (cases "v = PyNone")
    case True
    then show ?thesis using Cons.IH [of items] by (simp add: candidates_def)
  next
    case False
    let ?t = "strip (py_str v)"
    have c: "candidates (v # vs) = (if ?t \<noteq> [] then ?t # candidates vs else candidates vs)"
      using False by (simp add: candidates_def)
    show ?thesis
    proof (cases "?t \<noteq> [] \<and> ?t \<notin> set items")
      case True
      have "(\<lambda>y. y \<noteq> ?t \<and> y \<notin> set items) = (\<lambda>y. y \<notin> set items \<and> y \<noteq> ?t)" by auto
      then show ?thesis
        using False True Cons.IH [of "items @ [?t]"]
        by (simp add: c first_occurrences_Cons Let_def)
    next
      case nogo: False
      then show ?thesis
        using False Cons.IH [of items] by (auto simp: c Let_def)
    qed
  qed
qed

lemma normalise_spec: "normalise vs = first_occurrences (candidates vs)"
  by (simp add: normalise_def normalise_loop_spec)

lemma read_rows_spec:
  "1 < idx \<Longrightarrow>
   read_rows idx rows (ps, ws) =
     (ps @ map (\<lambda>row. if 0 < length row then row ! 0 else PyNone) rows,
      ws @ map (\<lambda>row. if 1 < length row then row ! 1 else PyNone) rows)"
proof (induction rows arbitrary: idx ps ws)
  case Nil
  show ?case by simp
next
  case (Cons row rows)
  have 0: "(row @ [PyNone, PyNone]) ! 0 = (if 0 < length row then row ! 0 else PyNone)"
    by (cases row) simp_all
  have 1: "(row @ [PyNone, PyNone]) ! 1 = (if 1 < length row then row ! 1 else PyNone)"
    by (cases row; cases "tl row") (auto simp: nth_append)
  show ?case
    using Cons.prems Cons.IH [of "idx + 1" "ps @ [(row @ [PyNone, PyNone]) ! 0]"
        "ws @ [(row @ [PyNone, PyNone]) ! 1]"]
    by (simp add: Let_def 0 1 del: One_nat_def)
qed

lemma read_reference_spec:
  "read_reference rows =
     (first_occurrences (candidates (column 0 rows)), first_occurrences (candidates (column 1 rows)))"
proof (cases rows)
  case Nil
  then show ?thesis
    by (simp add: read_reference_def column_def normalise_spec)
next
  case (Cons h rest)
  have "read_rows (Suc (Suc 0)) rest ([], []) = (column 0 rows, column 1 rows)"
    by (simp add: read_rows_spec column_def Cons)
  then show ?thesis
    by (simp add: read_reference_def normalise_spec Cons)
qed

lemma first_occurrences_distinct: "distinct (first_occurrences xs)"
  by (simp add: first_occurrences_def)

lemma first_occurrences_set: "set (first_occurrences xs) = set xs"
  by (simp add: first_occurrences_def)

section \<open>Stored workbooks\<close>

lemma candidates_nonempty: "[] \<notin> set (candidates vs)"
  by (simp add: candidates_def)

lemma load_reference_data_read:
  assumes "fs path = Some (Xlsx ss)" and "find (\<lambda>s. fst s = REFERENCE_SHEET) ss = Some s"
  shows "load_reference_data fs path = Inr (read_reference (iter_rows (load_sheet s)))"
proof -
  obtain pre post where ss: "ss = pre @ s # post" and s: "fst s = REFERENCE_SHEET"
    using find_split [OF assms(2)] by blast
  have c: "contains (map load_sheet ss) REFERENCE_SHEET"
    unfolding contains_load using ss s by force
  show ?thesis
    unfolding load_reference_data_def
    by (simp add: assms load_workbook_def c getitem_load)
qed





section \<open>The example workbook\<close>


lemmas sheet_eval = iter_rows_def load_sheet_def max_row_def max_column_def cell_view_def
  text_cell_def new_cell_def upt_rec lit_def

lemmas normalise_eval = read_reference_def normalise_def strip_def isspace_def lit_def Let_def
  first_occurrences_def candidates_def column_def

lemma example_file:
  "example_book ''book.xlsx'' =
     Some (Xlsx [(lit ''Sheet'', []), (REFERENCE_SHEET, example_reference),
                 (TIMESHEET_SHEET, example_timesheet)])"
  by (simp add: example_book_def)





section \<open>Outcomes of \<open>append_time_entry\<close>\<close>





section \<open>The template\<close>

lemma create_template_result:
  "create_template fs path =
     (Inr (), fs(path \<mapsto> Xlsx [(REFERENCE_SHEET, header_cells reference_header),
                                 (TIMESHEET_SHEET, header_cells timesheet_header)]))"
  by (simp add: create_template_def Workbook_def active_def remove_def create_sheet_def
        ws_append_def new_sheet_def set_value_def ws_cell_def save_def store_sheet_def
        reference_header_def timesheet_header_def header_cells_def Let_def upt_rec)

lemma sheet_names_differ:
  "REFERENCE_SHEET \<noteq> TIMESHEET_SHEET" "lit ''Sheet'' \<noteq> REFERENCE_SHEET"
  "lit ''Sheet'' \<noteq> TIMESHEET_SHEET"
  by (simp_all add: REFERENCE_SHEET_def TIMESHEET_SHEET_def lit_def)

lemma template_rows:
  "iter_rows (load_sheet (REFERENCE_SHEET, header_cells reference_header)) = [reference_header]"
  "iter_rows (load_sheet (TIMESHEET_SHEET, header_cells timesheet_header)) = [timesheet_header]"
  by (simp_all add: iter_rows_def load_sheet_def max_row_def max_column_def cell_view_def
        header_cells_def reference_header_def timesheet_header_def new_cell_def upt_rec)




section \<open>Properties of the module\<close>




text \<open>
  C2. \<open>load_reference_data\<close> returns the projects of column 1 and the work types of
  column 2, each computed on its own: the first row is skipped, a missing entry of a
  short row counts as \<open>None\<close>, \<open>None\<close> is skipped, every other value is converted to
  text and stripped, empty texts are skipped, and of equal texts only the first
  occurrence is kept. Both lists are free of duplicates and of empty texts, and rows
  of any length, also the empty row, give a result and no error.
\<close>

theorem load_reference_data_normalised:
  "read_reference rows =
     (first_occurrences (candidates (column 0 rows)),
      first_occurrences (candidates (column 1 rows))) \<and>
   distinct (fst (read_reference rows)) \<and> distinct (snd (read_reference rows)) \<and>
   [] \<notin> set (fst (read_reference rows)) \<and> [] \<notin> set (snd (read_reference rows)) \<and>
   (fs path = Some (Xlsx ss) \<and> find (\<lambda>s. fst s = REFERENCE_SHEET) ss = Some s \<longrightarrow>
      load_reference_data fs path = Inr (read_reference (iter_rows (load_sheet s))))"
  by (simp add: read_reference_spec first_occurrences_distinct first_occurrences_set
        candidates_nonempty load_reference_data_read)

theorem load_reference_data_normalised_witness:
  "example_book ''book.xlsx'' =
     Some (Xlsx [(lit ''Sheet'', []), (REFERENCE_SHEET, example_reference),
                 (TIMESHEET_SHEET, example_timesheet)]) \<and>
   find (\<lambda>s. fst s = REFERENCE_SHEET)
     [(lit ''Sheet'', []), (REFERENCE_SHEET, example_reference), (TIMESHEET_SHEET, example_timesheet)]
     = Some (REFERENCE_SHEET, example_reference) \<and>
   load_reference_data example_book ''book.xlsx''
     = Inr ([lit ''A'', lit ''B''], [lit ''X'', lit ''Y'']) \<and>
   read_reference
     [[], [PyStr (lit ''A'')], [PyNone, PyStr (lit '' ''), PyInt 7], [PyInt 7], [PyStr (lit ''A '')]]
     = ([lit ''A'', lit ''7''], []) \<and>
   read_reference
     [[PyStr (lit ''A''), PyStr (lit ''X'')], [PyStr (lit ''B''), PyNone],
      [PyStr (lit ''A''), PyStr (lit ''Y'')], [PyStr (lit '' A ''), PyStr (lit ''X'')]]
     = ([lit ''B'', lit ''A''], [lit ''Y'', lit ''X''])"
proof -
  let ?ss = "[(lit ''Sheet'', []), (REFERENCE_SHEET, example_reference),
              (TIMESHEET_SHEET, example_timesheet)]"
  let ?rows = "[[], [PyStr (lit ''A'')], [PyNone, PyStr (lit '' ''), PyInt 7], [PyInt 7],
                [PyStr (lit ''A '')]]"
  have h2: "find (\<lambda>s. fst s = REFERENCE_SHEET) ?ss = Some (REFERENCE_SHEET, example_reference)"
    by (simp add: REFERENCE_SHEET_def lit_def)
  have e1: "read_reference (iter_rows (load_sheet (REFERENCE_SHEET, example_reference)))
              = ([lit ''A'', lit ''B''], [lit ''X'', lit ''Y''])"
    by (simp add: example_reference_def sheet_eval normalise_eval)
  have e2: "(first_occurrences (candidates (column 0 ?rows)),
             first_occurrences (candidates (column 1 ?rows))) = ([lit ''A'', lit ''7''], [])"
    by (simp add: normalise_eval str_int_def digits.simps)
  note t = load_reference_data_normalised [of ?rows example_book "''book.xlsx''" ?ss
      "(REFERENCE_SHEET, example_reference)"]
  have "load_reference_data example_book ''book.xlsx''
          = Inr (read_reference (iter_rows (load_sheet (REFERENCE_SHEET, example_reference))))"
    using t example_file h2 by blast
  moreover have "read_reference ?rows = ([lit ''A'', lit ''7''], [])"
    using t e2 by (elim conjE) (rule trans)
  moreover have "read_reference
     [[PyStr (lit ''A''), PyStr (lit ''X'')], [PyStr (lit ''B''), PyNone],
      [PyStr (lit ''A''), PyStr (lit ''Y'')], [PyStr (lit '' A ''), PyStr (lit ''X'')]]
     = ([lit ''B'', lit ''A''], [lit ''Y'', lit ''X''])"
    by (simp add: read_reference_spec normalise_eval)
  ultimately show ?thesis using example_file h2 e1 by (simp only: simp_thms)
qed

text \<open>
  C3. For every path and every file system, \<open>create_template\<close> succeeds and leaves at
  the path a workbook of exactly two sheets, the reference sheet and then the timesheet
  sheet under their fixed names; each reads as its one header row and nothing else, and
  the sheet "Sheet" that a new workbook starts with is not among them.
\<close>

theorem create_template_shape:
  "fst (create_template fs path) = Inr () \<and>
   (\<exists>ss. snd (create_template fs path) = fs(path \<mapsto> Xlsx ss) \<and>
      map fst ss = [REFERENCE_SHEET, TIMESHEET_SHEET] \<and>
      map (\<lambda>s. iter_rows (load_sheet s)) ss = [[reference_header], [timesheet_header]] \<and>
      map (\<lambda>s. max_row (load_sheet s)) ss = [1, 1] \<and>
      lit ''Sheet'' \<notin> set (map fst ss))"
proof -
  let ?ss = "[(REFERENCE_SHEET, header_cells reference_header),
              (TIMESHEET_SHEET, header_cells timesheet_header)]"
  have m: "map (\<lambda>s. max_row (load_sheet s)) ?ss = [1, 1]"
    by (simp add: load_sheet_def max_row_def header_cells_def reference_header_def
          timesheet_header_def upt_rec)
  have "snd (create_template fs path) = fs(path \<mapsto> Xlsx ?ss) \<and>
      map fst ?ss = [REFERENCE_SHEET, TIMESHEET_SHEET] \<and>
      map (\<lambda>s. iter_rows (load_sheet s)) ?ss = [[reference_header], [timesheet_header]] \<and>
      map (\<lambda>s. max_row (load_sheet s)) ?ss = [1, 1] \<and>
      lit ''Sheet'' \<notin> set (map fst ?ss)"
    using m by (simp add: create_template_result template_rows sheet_names_differ)
  then have "\<exists>ss. snd (create_template fs path) = fs(path \<mapsto> Xlsx ss) \<and>
      map fst ss = [REFERENCE_SHEET, TIMESHEET_SHEET] \<and>
      map (\<lambda>s. iter_rows (load_sheet s)) ss = [[reference_header], [timesheet_header]] \<and>
      map (\<lambda>s. max_row (load_sheet s)) ss = [1, 1] \<and>
      lit ''Sheet'' \<notin> set (map fst ss)"
    by (rule exI)
  then show ?thesis by (simp add: create_template_result)
qed

theorem create_template_shape_witness:
  "fst (create_template example_book ''new.xlsx'') = Inr () \<and>
   (\<exists>ss. snd (create_template example_book ''new.xlsx'') = example_book(''new.xlsx'' \<mapsto> Xlsx ss) \<and>
      map fst ss = [REFERENCE_SHEET, TIMESHEET_SHEET] \<and>
      map (\<lambda>s. iter_rows (load_sheet s)) ss = [[reference_header], [timesheet_header]] \<and>
      map (\<lambda>s. max_row (load_sheet s)) ss = [1, 1] \<and>
      lit ''Sheet'' \<notin> set (map fst ss))"
  by (rule create_template_shape)

text \<open>
  C4. When the file exists and its workbook lacks the sheet an operation needs,
  \<open>load_reference_data\<close> and \<open>append_time_entry\<close> raise \<open>ExcelStructureError\<close> with a
  message that holds the expected sheet name and, joined by ", ", the names of all the
  sheets present; the append leaves the file system as it was.
\<close>

theorem missing_sheet_error:
  assumes "fs path = Some (Xlsx ss)"
  shows "(REFERENCE_SHEET \<notin> fst ` set ss \<longrightarrow>
            load_reference_data fs path =
              Inl (ExcelStructureError
                     (lit ''Workbook must contain sheet '' @ [39] @ REFERENCE_SHEET @ [39]
                        @ lit ''. Found: '' @ join (lit '', '') (map fst ss)))) \<and>
         (TIMESHEET_SHEET \<notin> fst ` set ss \<longrightarrow>
            append_time_entry accepts now fs path project work_type elapsed_seconds finished_at =
              (Inl (ExcelStructureError
                      (lit ''Workbook must contain sheet '' @ [39] @ TIMESHEET_SHEET @ [39]
                         @ lit ''. Found: '' @ join (lit '', '') (map fst ss))), fs))"
  using assms
  by (simp add: load_reference_data_def append_time_entry_def load_workbook_def contains_load
        structure_message_def sheetnames_load)

theorem missing_sheet_error_witness:
  "example_foreign ''other.xlsx'' = Some (Xlsx [(lit ''Sheet'', []), (lit ''Data'', [])]) \<and>
   REFERENCE_SHEET \<notin> fst ` set [(lit ''Sheet'', []), (lit ''Data'', [])] \<and>
   TIMESHEET_SHEET \<notin> fst ` set [(lit ''Sheet'', []), (lit ''Data'', [])] \<and>
   load_reference_data example_foreign ''other.xlsx'' =
     Inl (ExcelStructureError
            (lit ''Workbook must contain sheet '' @ [39] @ REFERENCE_SHEET @ [39]
               @ lit ''. Found: '' @ lit ''Sheet, Data'')) \<and>
   append_time_entry True example_now example_foreign ''other.xlsx'' (lit ''P1'') (lit ''W1'') 3725 None =
     (Inl (ExcelStructureError
             (lit ''Workbook must contain sheet '' @ [39] @ TIMESHEET_SHEET @ [39]
                @ lit ''. Found: '' @ lit ''Sheet, Data'')), example_foreign)"
proof -
  have f: "example_foreign ''other.xlsx'' = Some (Xlsx [(lit ''Sheet'', []), (lit ''Data'', [])])"
    by (simp add: example_foreign_def)
  have r: "REFERENCE_SHEET \<notin> fst ` set [(lit ''Sheet'', []), (lit ''Data'', [])]"
    and t: "TIMESHEET_SHEET \<notin> fst ` set [(lit ''Sheet'', []), (lit ''Data'', [])]"
    by (simp_all add: REFERENCE_SHEET_def TIMESHEET_SHEET_def lit_def)
  have j: "join (lit '', '') (map fst [(lit ''Sheet'', []), (lit ''Data'', [])]) = lit ''Sheet, Data''"
    by (simp add: lit_def)
  show ?thesis
    using missing_sheet_error [where fs = example_foreign and path = "''other.xlsx''", OF f,
        of True example_now "lit ''P1''" "lit ''W1''" 3725 None] f r t
    unfolding j by simp
qed

text \<open>
  C5. When no file exists at the path, \<open>load_reference_data\<close> and \<open>append_time_entry\<close>
  both raise \<open>FileNotFoundError\<close>, whatever else the file system holds: nothing is
  loaded or written.
\<close>

theorem missing_file_error:
  assumes "fs path = None"
  shows "load_reference_data fs path = Inl (FileNotFoundError path) \<and>
         append_time_entry accepts now fs path project work_type elapsed_seconds finished_at
           = (Inl (FileNotFoundError path), fs)"
  using assms by (simp add: load_reference_data_def append_time_entry_def)

theorem missing_file_error_witness:
  "example_book ''absent.xlsx'' = None \<and>
   load_reference_data example_book ''absent.xlsx'' = Inl (FileNotFoundError ''absent.xlsx'') \<and>
   append_time_entry True example_now example_book ''absent.xlsx'' (lit ''P1'') (lit ''W1'') 3725 None
     = (Inl (FileNotFoundError ''absent.xlsx''), example_book)"
proof -
  have f: "example_book ''absent.xlsx'' = None" by (simp add: example_book_def)
  show ?thesis
    using missing_file_error [where fs = example_book and path = "''absent.xlsx''", OF f,
        of True example_now "lit ''P1''" "lit ''W1''" 3725 None] f
    by simp
qed










text \<open>
  C10. \<open>is_empty_row\<close> holds exactly when the values of the cells in columns 1 to 4 are
  all \<open>None\<close>. So a row of [2, last] with any other value in one of these cells, the
  empty string included, is not empty for the scan, and the scan does not select it.
\<close>

theorem empty_string_occupies_row:
  "(fst (is_empty_row sheet r) \<longleftrightarrow>
      val (cell_view (cells sheet) (r, 1)) = PyNone \<and> val (cell_view (cells sheet) (r, 2)) = PyNone \<and>
      val (cell_view (cells sheet) (r, 3)) = PyNone \<and> val (cell_view (cells sheet) (r, 4)) = PyNone) \<and>
   (2 \<le> r \<and> r \<le> max_row sheet \<and> c \<in> {1, 2, 3, 4} \<and>
    val (cell_view (cells sheet) (r, c)) \<noteq> PyNone \<longrightarrow>
      \<not> fst (is_empty_row sheet r) \<and> fst (find_target_row sheet) \<noteq> r)"
proof -
  have 1: "fst (is_empty_row sheet r) \<longleftrightarrow>
      val (cell_view (cells sheet) (r, 1)) = PyNone \<and> val (cell_view (cells sheet) (r, 2)) = PyNone \<and>
      val (cell_view (cells sheet) (r, 3)) = PyNone \<and> val (cell_view (cells sheet) (r, 4)) = PyNone"
    by (simp add: is_empty_row_fst row_is_free_def)
  have 2: "\<not> fst (is_empty_row sheet r) \<and> fst (find_target_row sheet) \<noteq> r"
    if r: "2 \<le> r" "r \<le> max_row sheet" and c: "c \<in> {1, 2, 3, 4}"
      and v: "val (cell_view (cells sheet) (r, c)) \<noteq> PyNone"
  proof -
    have occupied: "\<not> row_is_free (cells sheet) r"
      using c v by (auto simp: row_is_free_def)
    have "fst (find_target_row sheet) \<noteq> r"
    proof
      assume t: "fst (find_target_row sheet) = r"
      have "fst (find_target_row sheet) \<le> max_row sheet \<longrightarrow>
              row_is_free (cells sheet) (fst (find_target_row sheet))"
        using find_target_row_spec [of sheet] by simp
      then show False using t r occupied by simp
    qed
    then show ?thesis using occupied by (simp add: is_empty_row_fst)
  qed
  show ?thesis using 1 2 by blast
qed

theorem empty_string_occupies_row_witness:
  "(2::nat) \<le> 3 \<and> 3 \<le> max_row (load_sheet (TIMESHEET_SHEET, example_blank)) \<and>
   (2::nat) \<in> {1, 2, 3, 4} \<and>
   val (cell_view (cells (load_sheet (TIMESHEET_SHEET, example_blank))) (3, 2)) = PyStr [] \<and>
   PyStr [] \<noteq> PyNone \<and>
   \<not> fst (is_empty_row (load_sheet (TIMESHEET_SHEET, example_blank)) 3) \<and>
   fst (find_target_row (load_sheet (TIMESHEET_SHEET, example_blank))) \<noteq> 3 \<and>
   fst (find_target_row (load_sheet (TIMESHEET_SHEET, example_blank))) = 5"
proof -
  let ?sheet = "load_sheet (TIMESHEET_SHEET, example_blank)"
  have m: "max_row ?sheet = 4"
    by (simp add: example_blank_def load_sheet_def max_row_def)
  have v: "val (cell_view (cells ?sheet) (3, 2)) = PyStr []"
    by (simp add: example_blank_def load_sheet_cells cell_view_def text_cell_def lit_def)
  have t: "fst (find_target_row ?sheet) = 5"
    unfolding find_target_row_fst m
    by (simp add: load_sheet_cells upt_rec)
       (simp add: example_blank_def row_is_free_def cell_view_def text_cell_def lit_def new_cell_def)
  have "\<not> fst (is_empty_row ?sheet 3) \<and> fst (find_target_row ?sheet) \<noteq> 3"
    using empty_string_occupies_row [of ?sheet 3 2] m v by simp
  then show ?thesis using m v t by simp
qed

end
